theory Spec2Isabelle
  imports Main "HOL-Library.AList"
begin

section \<open>Data model of the abuse-report handler\<close>

text \<open>
  The handler \<open>AbuseReportHandler\<close> of \<open>synapse/handlers/abuse_reports.py\<close> is embedded
  as pure functions. A call returns the list of collaborator calls it made (in program
  order) together with either the exception that left the function (\<open>Inl\<close>) or the value
  it returned (\<open>Inr\<close>). The coroutines are run sequentially: the handler owns no mutable
  state, so the collaborators' answers do not change during one call.
\<close>

subsection \<open>JSON values and dictionaries\<close>

datatype json =
    JNull
  | JBool bool
  | JInt int
  | JStr string
  | JArr "json list"
  | JObj "(string \<times> json) list"

text \<open>A Python \<open>dict\<close> with string keys, in insertion order.\<close>

type_synonym JsonDict = "(string \<times> json) list"

subsection \<open>Exceptions\<close>

text \<open>
  \<open>Codes.BAD_JSON\<close> and \<open>Codes.NOT_FOUND\<close> are the two error codes the handler itself
  raises; \<open>OtherCode\<close> stands for any code raised by a helper declared outside the file.
\<close>

datatype Codes = BAD_JSON | NOT_FOUND | OtherCode string

text \<open>
  \<open>SynapseError status msg errcode\<close>; \<open>KeyError k\<close> is what \<open>d[k]\<close> and \<open>d.pop(k)\<close> raise
  on a missing key; \<open>AttributeError a\<close> is what \<open>x.a\<close> raises when the object has no
  attribute \<open>a\<close>.
\<close>

datatype exn =
    SynapseError nat string Codes
  | KeyError string
  | AttributeError string

text \<open>\<open>HTTPStatus.BAD_REQUEST\<close> and \<open>HTTPStatus.NOT_FOUND\<close> of the standard library.\<close>

definition HTTP_BAD_REQUEST :: nat where
  "HTTP_BAD_REQUEST = 400"

definition HTTP_NOT_FOUND :: nat where
  "HTTP_NOT_FOUND = 404"

text \<open>An error of the not-found class: status 404 with code \<open>NOT_FOUND\<close>.\<close>

fun is_not_found :: "exn \<Rightarrow> bool" where
  "is_not_found (SynapseError status msg code) = (status = HTTP_NOT_FOUND \<and> code = NOT_FOUND)"
| "is_not_found (KeyError k) = False"
| "is_not_found (AttributeError a) = False"

subsection \<open>Identifiers, events, power levels\<close>

text \<open>
  \<open>UserID\<close> and \<open>RoomID\<close> are declared in \<open>synapse.types\<close>, outside the file. The handler
  observes a \<open>UserID\<close> only through its attribute \<open>domain\<close> and the result of
  \<open>to_string()\<close>, and a \<open>RoomID\<close> only through \<open>to_string()\<close>; the objects are modelled
  by exactly these observations.
\<close>

datatype UserID = UserID (domain: string) (to_string: string)

datatype RoomID = RoomID (room_to_string: string)

text \<open>An event as the handler reads it: its \<open>room_id\<close> attribute.\<close>

datatype Event = Event (event_room_id: string)

text \<open>
  The content of the room's power-level event: the optional thresholds \<open>ban\<close> and \<open>kick\<close>
  and the optional \<open>users\<close> mapping (a dictionary in insertion order). Levels are
  integers, as in the data model.
\<close>

record PowerLevels =
  ban :: "int option"
  kick :: "int option"
  users :: "(string \<times> int) list option"

subsection \<open>Collaborator calls\<close>

datatype EventTypes = Message | PowerLevelsType

datatype EduTypes = ContentReport

text \<open>The arguments a \<open>logger.warning\<close> call formats.\<close>

datatype warning =
    WrongDomain json string
  | NoSuchEvent json
  | WrongRoom json string

text \<open>
  \<open>SendNotice user_id type event_content\<close> is \<open>server_notices.send_notice\<close>,
  \<open>SendEdu destination edu_type content\<close> is \<open>federation_sender.build_and_send_edu\<close>,
  \<open>AddEventReport room_id event_id user_id reason content received_ts\<close> is
  \<open>store.add_event_report\<close>, \<open>LogWarning\<close> is \<open>logger.warning\<close>.
\<close>

datatype effect =
    SendNotice string EventTypes JsonDict
  | SendEdu string EduTypes JsonDict
  | AddEventReport string string string string JsonDict int
  | LogWarning warning


fun is_federation_send :: "effect \<Rightarrow> bool" where
  "is_federation_send (SendEdu d t c) = True"
| "is_federation_send (SendNotice u t c) = False"
| "is_federation_send (AddEventReport r e u reason c ts) = False"
| "is_federation_send (LogWarning w) = False"

subsection \<open>The home server and the imported names\<close>

text \<open>
  Everything the handler reaches through \<open>hs\<close> or imports from a module outside the file
  is a field of this record:
  \<^item> \<open>hostname\<close>: \<open>hs.hostname\<close>;
  \<^item> \<open>federation_sender\<close>: whether \<open>self.federation_sender\<close> is set;
  \<^item> \<open>is_enabled\<close>: the answer of \<open>server_notices.is_enabled()\<close>;
  \<^item> \<open>get_event\<close>: the store's event lookup, \<open>None\<close> for an unknown event;
  \<^item> \<open>get_current_state\<close>: the content of the room's current power-level event
    (\<open>state.get_current_state(room, EventTypes.PowerLevels, "")\<close>), \<open>None\<close> when the room
    has none;
  \<^item> \<open>filter_events_for_client\<close>: visibility filtering for a user, in peeking mode;
  \<^item> \<open>time_msec\<close>: the clock;
  \<^item> \<open>RoomID_from_string\<close>, \<open>UserID_from_string\<close>, \<open>get_domain_from_id\<close>: the parsers of
    \<open>synapse.types\<close>, which may raise;
  \<^item> \<open>assert_params_in_dict\<close>: the check of \<open>synapse.http.servlet\<close>, \<open>Some e\<close> when it
    raises \<open>e\<close>;
  \<^item> \<open>ServerNoticeContentReport\<close>: the message-type constant of \<open>synapse.api.constants\<close>.
\<close>

record HomeServer =
  hostname :: string
  federation_sender :: bool
  is_enabled :: bool
  get_event :: "json \<Rightarrow> Event option"
  get_current_state :: "string \<Rightarrow> PowerLevels option"
  filter_events_for_client :: "string \<Rightarrow> Event list \<Rightarrow> Event list"
  time_msec :: int
  RoomID_from_string :: "string \<Rightarrow> exn + RoomID"
  UserID_from_string :: "string \<Rightarrow> exn + UserID"
  get_domain_from_id :: "json \<Rightarrow> exn + string"
  assert_params_in_dict :: "JsonDict \<Rightarrow> string list \<Rightarrow> exn option"
  ServerNoticeContentReport :: json

text \<open>
  Modelled from the spec: \<open>hs.is_mine\<close>, declared outside the file. The spec's federated
  ingester delivers to "every moderator whose server is this server".
\<close>

definition is_mine :: "HomeServer \<Rightarrow> UserID \<Rightarrow> bool" where
  "is_mine hs u = (domain u = hostname hs)"

text \<open>
  Modelled from the spec: \<open>store.get_event\<close> without \<open>allow_none\<close>, declared outside the
  file. The spec's \<open>Store.lookupEvent(eventId) -> Event | NotFound\<close>: an unknown event
  raises a not-found error.
\<close>

definition get_event_or_raise :: "HomeServer \<Rightarrow> json \<Rightarrow> exn + Event" where
  "get_event_or_raise hs event_id =
     (case get_event hs event_id of
        None \<Rightarrow> Inl (SynapseError HTTP_NOT_FOUND ''Could not find event'' NOT_FOUND)
      | Some event \<Rightarrow> Inr event)"

section \<open>Dictionary operations\<close>

text \<open>\<open>d.get(k, default)\<close>.\<close>

definition dict_get :: "('k \<times> 'v) list \<Rightarrow> 'k \<Rightarrow> 'v \<Rightarrow> 'v" where
  "dict_get d k dflt = (case map_of d k of None \<Rightarrow> dflt | Some v \<Rightarrow> v)"

text \<open>\<open>d.pop(k)\<close>: the value and the dictionary without the key, \<open>KeyError\<close> when absent.\<close>

definition pop :: "string \<Rightarrow> JsonDict \<Rightarrow> exn + (json \<times> JsonDict)" where
  "pop k d =
     (case map_of d k of
        None \<Rightarrow> Inl (KeyError k)
      | Some v \<Rightarrow> Inr (v, AList.delete k d))"

section \<open>Moderator resolution\<close>

text \<open>
  The argument \<open>get_moderators\<close> receives at run time: the local path passes a \<open>RoomID\<close>
  object (\<open>RoomID.from_string(room_id)\<close>), the federated path passes the value popped
  from the EDU content. The annotation \<open>room_id: RoomID\<close> is not enforced by Python, and
  no JSON value (\<open>str\<close>, \<open>int\<close>, \<open>list\<close>, \<open>dict\<close>, \<open>None\<close>) has a method \<open>to_string\<close>.
\<close>

datatype room_id_arg = RoomID_object RoomID | Json_value json

fun call_to_string :: "room_id_arg \<Rightarrow> exn + string" where
  "call_to_string (RoomID_object r) = Inr (room_to_string r)"
| "call_to_string (Json_value j) = Inl (AttributeError ''to_string'')"

text \<open>
  The loop of \<open>get_moderators\<close> over \<open>content["users"].items()\<close>; \<open>moderators\<close> is the list
  built so far. \<open>UserID.from_string\<close> may raise.
\<close>

fun collect_moderators ::
  "HomeServer \<Rightarrow> int \<Rightarrow> (string \<times> int) list \<Rightarrow> UserID list \<Rightarrow> exn + UserID list" where
  "collect_moderators hs moderator_level [] moderators = Inr moderators"
| "collect_moderators hs moderator_level ((member_id, level) # rest) moderators =
     (if level \<ge> moderator_level then
        (case UserID_from_string hs member_id of
           Inl e \<Rightarrow> Inl e
         | Inr u \<Rightarrow> collect_moderators hs moderator_level rest (moderators @ [u]))
      else collect_moderators hs moderator_level rest moderators)"

definition moderator_level_of :: "PowerLevels \<Rightarrow> int" where
  "moderator_level_of content =
     (let ban_level = (case ban content of None \<Rightarrow> 50 | Some b \<Rightarrow> b);
          kick_level = (case kick content of None \<Rightarrow> 50 | Some k \<Rightarrow> k)
      in max ban_level kick_level)"

definition get_moderators :: "HomeServer \<Rightarrow> room_id_arg \<Rightarrow> exn + UserID list" where
  "get_moderators hs room_id =
     (case call_to_string room_id of
        Inl e \<Rightarrow> Inl e
      | Inr room_id_str \<Rightarrow>
        (case get_current_state hs room_id_str of
           None \<Rightarrow>
             Inl (SynapseError HTTP_NOT_FOUND
                    ''This room doesn't seem to have moderators'' NOT_FOUND)
         | Some content \<Rightarrow>
             (let moderator_level = moderator_level_of content in
              case users content of
                None \<Rightarrow> Inl (KeyError ''users'')
              | Some items \<Rightarrow> collect_moderators hs moderator_level items [])))"

text \<open>The error \<open>get_moderators\<close> raises for a room without power-level event.\<close>

definition no_moderators_error :: exn where
  "no_moderators_error =
     SynapseError HTTP_NOT_FOUND ''This room doesn't seem to have moderators'' NOT_FOUND"

section \<open>Reporting to the home server's administrators\<close>

text \<open>The value a report returns: Python's \<open>None\<close>, or a pair of a status and a body.\<close>

type_synonym response = "(nat \<times> JsonDict) option"

definition report_to_homeserver_admin ::
  "HomeServer \<Rightarrow> RoomID \<Rightarrow> string \<Rightarrow> UserID \<Rightarrow> string \<Rightarrow> JsonDict
     \<Rightarrow> effect list \<times> (exn + response)" where
  "report_to_homeserver_admin hs room_id event_id user_id reason content =
     ([AddEventReport (room_to_string room_id) event_id (to_string user_id) reason content
         (time_msec hs)],
      Inr (Some (200, [])))"

section \<open>Reporting to the room's moderators\<close>

fun json_of_score :: "int option \<Rightarrow> json" where
  "json_of_score None = JNull"
| "json_of_score (Some n) = JInt n"

fun json_of_nature :: "string option \<Rightarrow> json" where
  "json_of_nature None = JNull"
| "json_of_nature (Some s) = JStr s"

text \<open>The dictionary \<open>event_content\<close> built at lines 193 to 202.\<close>

definition moderators_event_content ::
  "HomeServer \<Rightarrow> RoomID \<Rightarrow> string \<Rightarrow> UserID \<Rightarrow> string \<Rightarrow> int option \<Rightarrow> string option
     \<Rightarrow> JsonDict" where
  "moderators_event_content hs room_id event_id user_id reason score nature =
     [(''body'', JStr ''User has reported content''),
      (''msgtype'', ServerNoticeContentReport hs),
      (''room_id'', JStr (room_to_string room_id)),
      (''event_id'', JStr event_id),
      (''user_id'', JStr (to_string user_id)),
      (''score'', json_of_score score),
      (''reason'', JStr reason),
      (''nature'', json_of_nature nature)]"

text \<open>
  The grouping loop of lines 205 to 212. The key \<open>hs\<close> of every moderator is
  \<open>user_id.domain\<close>, the domain of the reporting user \<open>user_id\<close>, as the source has it.
  Appending to the list stored in the dictionary keeps the key's position.
\<close>

fun group_moderators ::
  "UserID \<Rightarrow> UserID list \<Rightarrow> (string \<times> UserID list) list \<Rightarrow> (string \<times> UserID list) list" where
  "group_moderators user_id [] moderators_by_hs = moderators_by_hs"
| "group_moderators user_id (moderator # rest) moderators_by_hs =
     (let hs = domain user_id in
      case map_of moderators_by_hs hs of
        None \<Rightarrow> group_moderators user_id rest (moderators_by_hs @ [(hs, [moderator])])
      | Some moderators_on_hs \<Rightarrow>
          group_moderators user_id rest
            (AList.update hs (moderators_on_hs @ [moderator]) moderators_by_hs))"

text \<open>The dispatch loop of lines 215 to 235 over \<open>moderators_by_hs.items()\<close>.\<close>

fun dispatch_report ::
  "HomeServer \<Rightarrow> JsonDict \<Rightarrow> (string \<times> UserID list) list \<Rightarrow> effect list" where
  "dispatch_report server event_content [] = []"
| "dispatch_report server event_content ((hs, moderators) # rest) =
     (if hostname server = hs then
        (if is_enabled server then
           map (\<lambda>moderator_id. SendNotice (to_string moderator_id) Message event_content)
             moderators
         else [])
      else if federation_sender server then [SendEdu hs ContentReport event_content]
      else [])
     @ dispatch_report server event_content rest"

text \<open>
  \<open>_report_to_room_moderators\<close>. The function has no \<open>return\<close> statement: when it
  completes it returns Python's \<open>None\<close>.
\<close>

definition report_to_room_moderators ::
  "HomeServer \<Rightarrow> RoomID \<Rightarrow> string \<Rightarrow> UserID \<Rightarrow> string \<Rightarrow> int option \<Rightarrow> string option
     \<Rightarrow> effect list \<times> (exn + response)" where
  "report_to_room_moderators hs room_id event_id user_id reason score nature =
     (case get_event_or_raise hs (JStr event_id) of
        Inl e \<Rightarrow> ([], Inl e)
      | Inr event \<Rightarrow>
        if event_room_id event \<noteq> room_to_string room_id then
          ([], Inl (SynapseError HTTP_NOT_FOUND ''Cannot find event'' NOT_FOUND))
        else
          (let events = filter_events_for_client hs (to_string user_id) [event] in
           if length events = 0 then
             ([], Inl (SynapseError HTTP_NOT_FOUND ''Cannot find event'' NOT_FOUND))
           else
             (case get_moderators hs (RoomID_object room_id) of
                Inl e \<Rightarrow> ([], Inl e)
              | Inr moderators \<Rightarrow>
                (let event_content =
                       moderators_event_content hs room_id event_id user_id reason score nature
                 in case get_moderators hs (RoomID_object room_id) of
                      Inl e \<Rightarrow> ([], Inl e)
                    | Inr moderators2 \<Rightarrow>
                        (dispatch_report hs event_content
                           (group_moderators user_id moderators2 []),
                         Inr None)))))"

section \<open>The entry point\<close>

definition report ::
  "HomeServer \<Rightarrow> UserID \<Rightarrow> JsonDict \<Rightarrow> string \<Rightarrow> string \<Rightarrow> string \<Rightarrow> int option
     \<Rightarrow> string option \<Rightarrow> effect list \<times> (exn + response)" where
  "report hs user_id body room_id event_id reason score nature =
     (case RoomID_from_string hs room_id of
        Inl e \<Rightarrow> ([], Inl e)
      | Inr typed_room_id \<Rightarrow>
        (case assert_params_in_dict hs body [''reason'', ''score''] of
           Some e \<Rightarrow> ([], Inl e)
         | None \<Rightarrow>
           (let target = dict_get body ''org.matrix.msc2938.target'' (JStr ''homeserver-admins'')
            in if target = JStr ''room-moderators'' then
                 report_to_room_moderators hs typed_room_id event_id user_id reason score nature
               else if target = JStr ''homeserver-admins'' then
                 report_to_homeserver_admin hs typed_room_id event_id user_id reason body
               else
                 ([], Inl (SynapseError HTTP_BAD_REQUEST
                     ''Optional param 'target' must be one of ['homeserver-admins', 'room-moderators']''
                     BAD_JSON)))))"

section \<open>Reports received through federation\<close>

text \<open>The dictionary \<open>event_content\<close> rebuilt at lines 303 to 311.\<close>

definition federation_event_content ::
  "HomeServer \<Rightarrow> json \<Rightarrow> json \<Rightarrow> json \<Rightarrow> json \<Rightarrow> json \<Rightarrow> JsonDict" where
  "federation_event_content hs room_id event_id reporter_id score reason =
     [(''body'', JStr ''User has reported content''),
      (''msgtype'', ServerNoticeContentReport hs),
      (''room_id'', room_id),
      (''event_id'', event_id),
      (''reporter_id'', reporter_id),
      (''score'', score),
      (''reason'', reason)]"

text \<open>The loop of lines 315 to 321 over \<open>all_moderators\<close>.\<close>

fun notify_local_moderators :: "HomeServer \<Rightarrow> JsonDict \<Rightarrow> UserID list \<Rightarrow> effect list" where
  "notify_local_moderators hs event_content [] = []"
| "notify_local_moderators hs event_content (moderator_id # rest) =
     (if is_mine hs moderator_id then
        SendNotice (to_string moderator_id) Message event_content
          # notify_local_moderators hs event_content rest
      else notify_local_moderators hs event_content rest)"

text \<open>
  Lines 298 to 321, once the checks have passed. \<open>room_id\<close> is the value popped from the
  EDU content, and it is this value that is handed to \<open>get_moderators\<close>.
\<close>

definition dispatch_to_local_moderators ::
  "HomeServer \<Rightarrow> json \<Rightarrow> json \<Rightarrow> json \<Rightarrow> json \<Rightarrow> json \<Rightarrow> effect list \<times> (exn + unit)" where
  "dispatch_to_local_moderators hs room_id event_id reporter_id score reason =
     (let event_content = federation_event_content hs room_id event_id reporter_id score reason
      in case get_moderators hs (Json_value room_id) of
           Inl e \<Rightarrow> ([], Inl e)
         | Inr all_moderators \<Rightarrow>
             (notify_local_moderators hs event_content all_moderators, Inr ()))"

definition on_receive_report_through_federation ::
  "HomeServer \<Rightarrow> string \<Rightarrow> JsonDict \<Rightarrow> effect list \<times> (exn + unit)" where
  "on_receive_report_through_federation hs origin edu_content =
     (case pop ''room_id'' edu_content of
        Inl e \<Rightarrow> ([], Inl e)
      | Inr (room_id, c1) \<Rightarrow>
     (case pop ''event_id'' c1 of
        Inl e \<Rightarrow> ([], Inl e)
      | Inr (event_id, c2) \<Rightarrow>
     (case pop ''reporter_id'' c2 of
        Inl e \<Rightarrow> ([], Inl e)
      | Inr (reporter_id, c3) \<Rightarrow>
     (case pop ''score'' c3 of
        Inl e \<Rightarrow> ([], Inl e)
      | Inr (score, c4) \<Rightarrow>
     (case pop ''reason'' c4 of
        Inl e \<Rightarrow> ([], Inl e)
      | Inr (reason, c5) \<Rightarrow>
     (case get_domain_from_id hs reporter_id of
        Inl e \<Rightarrow> ([], Inl e)
      | Inr reporter_domain \<Rightarrow>
        if reporter_domain \<noteq> origin then
          ([LogWarning (WrongDomain reporter_id origin)], Inr ())
        else
          (case get_event hs event_id of
             None \<Rightarrow> ([LogWarning (NoSuchEvent event_id)], Inr ())
           | Some event \<Rightarrow>
               if JStr (event_room_id event) \<noteq> room_id then
                 ([LogWarning (WrongRoom room_id (event_room_id event))], Inr ())
               else dispatch_to_local_moderators hs room_id event_id reporter_id score
                      reason)))))))"

section \<open>Who a call notifies\<close>

text \<open>
  The moderators of the room an EDU names: what moderator resolution returns for the
  \<open>RoomID\<close> whose \<open>to_string()\<close> is the claimed room identifier, and no one when the
  identifier is not a string or resolution fails.
\<close>

fun room_moderators :: "HomeServer \<Rightarrow> json \<Rightarrow> UserID list" where
  "room_moderators hs (JStr s) =
     (case get_moderators hs (RoomID_object (RoomID s)) of
        Inl e \<Rightarrow> []
      | Inr mods \<Rightarrow> mods)"
| "room_moderators hs j = []"

definition claimed_room_moderators :: "HomeServer \<Rightarrow> JsonDict \<Rightarrow> UserID list" where
  "claimed_room_moderators hs edu_content =
     (case map_of edu_content ''room_id'' of
        None \<Rightarrow> []
      | Some room_id \<Rightarrow> room_moderators hs room_id)"

text \<open>
  A collaborator call that stays on this server: a notice is sent to one of the given
  moderators that belongs to this server, and nothing is sent through federation.
\<close>

fun local_delivery_only :: "HomeServer \<Rightarrow> UserID list \<Rightarrow> effect \<Rightarrow> bool" where
  "local_delivery_only hs moderators (SendNotice u t c) =
     list_ex (\<lambda>m. is_mine hs m \<and> to_string m = u) moderators"
| "local_delivery_only hs moderators (SendEdu d t c) = False"
| "local_delivery_only hs moderators (AddEventReport r e u reason c ts) = True"
| "local_delivery_only hs moderators (LogWarning w) = True"

section \<open>A concrete deployment\<close>

text \<open>
  Instances of the collaborators for evaluating the handler on concrete inputs. Matrix
  identifiers have the form \<open>sigil localpart : domain\<close>; the sample parsers accept this
  form and raise otherwise.
\<close>

definition sample_domain :: "string \<Rightarrow> string" where
  "sample_domain s = tl (dropWhile (\<lambda>c. c \<noteq> CHR '':'') s)"

definition sample_UserID_from_string :: "string \<Rightarrow> exn + UserID" where
  "sample_UserID_from_string s =
     (if take 1 s = ''@'' \<and> CHR '':'' \<in> set s then Inr (UserID (sample_domain s) s)
      else Inl (SynapseError HTTP_BAD_REQUEST ''Expected UserID of the form @localname:domain''
                  (OtherCode ''M_INVALID_PARAM'')))"

definition sample_RoomID_from_string :: "string \<Rightarrow> exn + RoomID" where
  "sample_RoomID_from_string s =
     (if take 1 s = ''!'' \<and> CHR '':'' \<in> set s then Inr (RoomID s)
      else Inl (SynapseError HTTP_BAD_REQUEST ''Expected RoomID of the form !localname:domain''
                  (OtherCode ''M_INVALID_PARAM'')))"

fun sample_get_domain_from_id :: "json \<Rightarrow> exn + string" where
  "sample_get_domain_from_id (JStr s) =
     (if CHR '':'' \<in> set s then Inr (sample_domain s)
      else Inl (SynapseError HTTP_BAD_REQUEST ''Invalid ID'' (OtherCode ''M_UNKNOWN'')))"
| "sample_get_domain_from_id j = Inl (AttributeError ''find'')"

definition sample_assert_params_in_dict :: "JsonDict \<Rightarrow> string list \<Rightarrow> exn option" where
  "sample_assert_params_in_dict body required =
     (if list_all (\<lambda>k. map_of body k \<noteq> None) required then None
      else Some (SynapseError HTTP_BAD_REQUEST ''Missing params'' (OtherCode ''M_MISSING_PARAM'')))"

text \<open>
  The server \<open>local.org\<close> knows three events. The room \<open>!room:local.org\<close> has the power
  levels \<open>{ban: 50, kick: 50, users: {A: 100, B: 50, C: 0}}\<close> with \<open>A\<close> and \<open>C\<close> on
  \<open>local.org\<close> and \<open>B\<close> on \<open>remote.org\<close>; the room \<open>!nopl:local.org\<close> has no power-level
  event; the power-level event of \<open>!nousers:local.org\<close> has no \<open>users\<close> key. The user
  \<open>@hidden:local.org\<close> sees no event.
\<close>

definition sample_get_event :: "json \<Rightarrow> Event option" where
  "sample_get_event event_id =
     (if event_id = JStr ''$ev'' then Some (Event ''!room:local.org'')
      else if event_id = JStr ''$ev2'' then Some (Event ''!nopl:local.org'')
      else if event_id = JStr ''$ev3'' then Some (Event ''!nousers:local.org'')
      else None)"

definition sample_power_levels :: PowerLevels where
  "sample_power_levels =
     \<lparr>ban = Some 50, kick = Some 50,
      users = Some [(''@A:local.org'', 100), (''@B:remote.org'', 50), (''@C:local.org'', 0)]\<rparr>"

definition sample_get_current_state :: "string \<Rightarrow> PowerLevels option" where
  "sample_get_current_state room =
     (if room = ''!room:local.org'' then Some sample_power_levels
      else if room = ''!nousers:local.org'' then
        Some \<lparr>ban = None, kick = None, users = None\<rparr>
      else None)"

definition sample_filter_events_for_client :: "string \<Rightarrow> Event list \<Rightarrow> Event list" where
  "sample_filter_events_for_client user events =
     (if user = ''@hidden:local.org'' then [] else events)"

definition sample_hs :: HomeServer where
  "sample_hs =
     \<lparr>hostname = ''local.org'',
      federation_sender = True,
      is_enabled = True,
      get_event = sample_get_event,
      get_current_state = sample_get_current_state,
      filter_events_for_client = sample_filter_events_for_client,
      time_msec = 1600000000000,
      RoomID_from_string = sample_RoomID_from_string,
      UserID_from_string = sample_UserID_from_string,
      get_domain_from_id = sample_get_domain_from_id,
      assert_params_in_dict = sample_assert_params_in_dict,
      ServerNoticeContentReport = JStr ''org.matrix.msc2938.notice.content_report''\<rparr>"

definition alice :: UserID where
  "alice = UserID ''local.org'' ''@alice:local.org''"

definition hidden :: UserID where
  "hidden = UserID ''local.org'' ''@hidden:local.org''"

section \<open>Moderator resolution: results\<close>

text \<open>
  The loop returns the identifiers accumulated so far followed by the parsed identifiers
  of the entries at or above the threshold, provided each of them parses.
\<close>

lemma collect_moderators_exact:
  "map (UserID_from_string hs) (map fst (filter (\<lambda>(m, l). l \<ge> lvl) items)) = map Inr mods
   \<Longrightarrow> collect_moderators hs lvl items acc = Inr (acc @ mods)"
proof (induction items arbitrary: acc mods)
  case Nil
  then show ?case by simp
next
  case (Cons a items)
  obtain m l where a: "a = (m, l)" by (cases a)
  show ?case
  proof (cases "l \<ge> lvl")
    case True
    with Cons.prems a obtain u rest where mods: "mods = u # rest"
      and u: "UserID_from_string hs m = Inr u"
      and rest: "map (UserID_from_string hs) (map fst (filter (\<lambda>(m, l). l \<ge> lvl) items)) = map Inr rest"
      by (cases mods) auto
    from Cons.IH [OF rest, of "acc @ [u]"] show ?thesis
      using a True u mods by simp
  next
    case False
    with Cons.prems a have "map (UserID_from_string hs) (map fst (filter (\<lambda>(m, l). l \<ge> lvl) items)) = map Inr mods"
      by simp
    from Cons.IH [OF this, of acc] show ?thesis using a False by simp
  qed
qed

text \<open>
  C2. When the room has a power-level event whose content has a \<open>users\<close> mapping,
  moderator resolution returns exactly the users of that mapping whose level is at least
  \<open>max(ban, kick)\<close>, each threshold being 50 when absent, in the order of the mapping:
  \<open>mods\<close> is the list of the parsed identifiers of the qualifying entries. For the power
  levels \<open>{ban: 50, kick: 50, users: {A: 100, B: 50, C: 0}}\<close> the result is \<open>A, B\<close>.
\<close>

theorem get_moderators_exact:
  assumes "get_current_state hs (room_to_string r) = Some content"
    and "users content = Some items"
    and "map (UserID_from_string hs)
           (map fst (filter (\<lambda>(member_id, level).
              level \<ge> max (case ban content of None \<Rightarrow> 50 | Some b \<Rightarrow> b)
                           (case kick content of None \<Rightarrow> 50 | Some k \<Rightarrow> k)) items))
         = map Inr mods"
  shows "get_moderators hs (RoomID_object r) = Inr mods"
  using assms collect_moderators_exact [of hs "max (case ban content of None \<Rightarrow> 50 | Some b \<Rightarrow> b)
                           (case kick content of None \<Rightarrow> 50 | Some k \<Rightarrow> k)" items mods "[]"]
  by (simp add: get_moderators_def moderator_level_of_def del: max.bounded_iff)

theorem get_moderators_exact_witness:
  "get_moderators sample_hs (RoomID_object (RoomID ''!room:local.org''))
     = Inr [UserID ''local.org'' ''@A:local.org'', UserID ''remote.org'' ''@B:remote.org'']"
proof -
  have state: "get_current_state sample_hs (room_to_string (RoomID ''!room:local.org''))
                 = Some sample_power_levels"
    by (simp add: sample_hs_def sample_get_current_state_def)
  have items: "users sample_power_levels
                 = Some [(''@A:local.org'', 100), (''@B:remote.org'', 50), (''@C:local.org'', 0)]"
    by (simp add: sample_power_levels_def)
  have parsed: "map (UserID_from_string sample_hs)
           (map fst (filter (\<lambda>(member_id, level).
              level \<ge> max (case ban sample_power_levels of None \<Rightarrow> 50 | Some b \<Rightarrow> b)
                           (case kick sample_power_levels of None \<Rightarrow> 50 | Some k \<Rightarrow> k))
              [(''@A:local.org'', 100), (''@B:remote.org'', 50), (''@C:local.org'', 0)]))
         = map Inr [UserID ''local.org'' ''@A:local.org'', UserID ''remote.org'' ''@B:remote.org'']"
    by code_simp
  show ?thesis
    by (rule get_moderators_exact [OF state items parsed])
qed

text \<open>
  C10. When the room has a power-level event whose content has no \<open>users\<close> key,
  \<open>content["users"]\<close> raises \<open>KeyError\<close>: moderator resolution fails with this lookup
  error, which is not an error of the not-found class. So resolution returns a list only
  when the content has a \<open>users\<close> mapping.
\<close>

theorem missing_users_mapping_raises_KeyError:
  assumes "get_current_state hs (room_to_string room_id) = Some content"
    and "users content = None"
  shows "get_moderators hs (RoomID_object room_id) = Inl (KeyError ''users'')
         \<and> \<not> is_not_found (KeyError ''users'')"
  using assms by (simp add: get_moderators_def)

theorem missing_users_mapping_raises_KeyError_witness:
  "get_moderators sample_hs (RoomID_object (RoomID ''!nousers:local.org''))
     = Inl (KeyError ''users'')"
proof -
  have state: "get_current_state sample_hs (room_to_string (RoomID ''!nousers:local.org''))
                 = Some \<lparr>ban = None, kick = None, users = None\<rparr>"
    by (simp add: sample_hs_def sample_get_current_state_def)
  have nousers: "users \<lparr>ban = None, kick = None, users = None\<rparr> = None"
    by simp
  from missing_users_mapping_raises_KeyError [OF state nousers]
  show ?thesis by (rule conjunct1)
qed

section \<open>Reporting to the room's moderators: failures\<close>

text \<open>
  C6. When the room has no power-level event, moderator resolution raises the
  "no moderators" error, a not-found error with its own message, and never returns a
  list. On the dispatch path \<open>_report_to_room_moderators\<close> then raises without having
  called any collaborator that notifies; when the checks on the event pass, the error
  raised is the "no moderators" error.
\<close>

theorem no_power_levels_fails_before_dispatch:
  assumes "get_current_state hs (room_to_string room_id) = None"
  shows "get_moderators hs (RoomID_object room_id) = Inl no_moderators_error
         \<and> is_not_found no_moderators_error
         \<and> fst (report_to_room_moderators hs room_id event_id user_id reason score nature) = []
         \<and> isl (snd (report_to_room_moderators hs room_id event_id user_id reason score nature))
         \<and> (get_event hs (JStr event_id) = Some event
              \<and> event_room_id event = room_to_string room_id
              \<and> filter_events_for_client hs (to_string user_id) [event] \<noteq> []
            \<longrightarrow> snd (report_to_room_moderators hs room_id event_id user_id reason score nature)
                  = Inl no_moderators_error)"
proof -
  have mods: "get_moderators hs (RoomID_object room_id) = Inl no_moderators_error"
    using assms by (simp add: get_moderators_def no_moderators_error_def)
  show ?thesis
    using mods
    by (simp add: report_to_room_moderators_def get_event_or_raise_def Let_def
          no_moderators_error_def split: option.split)
qed

theorem no_power_levels_fails_before_dispatch_witness:
  "get_moderators sample_hs (RoomID_object (RoomID ''!nopl:local.org''))
     = Inl no_moderators_error
   \<and> fst (report_to_room_moderators sample_hs (RoomID ''!nopl:local.org'') ''$ev2'' alice
        ''spam'' (Some (- 50)) None) = []
   \<and> snd (report_to_room_moderators sample_hs (RoomID ''!nopl:local.org'') ''$ev2'' alice
        ''spam'' (Some (- 50)) None) = Inl no_moderators_error"
proof -
  have state: "get_current_state sample_hs (room_to_string (RoomID ''!nopl:local.org'')) = None"
    by (simp add: sample_hs_def sample_get_current_state_def)
  have checks: "get_event sample_hs (JStr ''$ev2'') = Some (Event ''!nopl:local.org'')
      \<and> event_room_id (Event ''!nopl:local.org'') = room_to_string (RoomID ''!nopl:local.org'')
      \<and> filter_events_for_client sample_hs (to_string alice) [Event ''!nopl:local.org''] \<noteq> []"
    by (simp add: sample_hs_def sample_get_event_def sample_filter_events_for_client_def
          alice_def)
  from no_power_levels_fails_before_dispatch [OF state, of "''$ev2''" alice "''spam''"
        "Some (- 50)" None "Event ''!nopl:local.org''"] checks
  show ?thesis by blast
qed

text \<open>
  When the room identifier parses and the parameter check passes, a report whose body
  selects the target \<open>room-moderators\<close> is \<open>_report_to_room_moderators\<close> on the
  parsed room.
\<close>

lemma report_room_moderators_target:
  assumes "RoomID_from_string hs room_id = Inr typed_room_id"
    and "assert_params_in_dict hs body [''reason'', ''score''] = None"
    and "dict_get body ''org.matrix.msc2938.target'' (JStr ''homeserver-admins'')
           = JStr ''room-moderators''"
  shows "report hs user_id body room_id event_id reason score nature
           = report_to_room_moderators hs typed_room_id event_id user_id reason score nature"
  using assms by (simp add: report_def)

text \<open>
  C3. When the reported event is unknown to the store, or its room differs from the room
  of the report, or visibility filtering for the reporting user returns no event,
  \<open>_report_to_room_moderators\<close> raises an error of the not-found class and has called no
  collaborator: no local notice and no federation message is sent.
\<close>

theorem unknown_or_invisible_event_not_found:
  assumes "get_event hs (JStr event_id) = None
           \<or> (\<exists>event. get_event hs (JStr event_id) = Some event
                \<and> (event_room_id event \<noteq> room_to_string room_id
                    \<or> filter_events_for_client hs (to_string user_id) [event] = []))"
  shows "fst (report_to_room_moderators hs room_id event_id user_id reason score nature) = []
         \<and> (case snd (report_to_room_moderators hs room_id event_id user_id reason score nature)
             of Inl e \<Rightarrow> is_not_found e | Inr r \<Rightarrow> False)"
  using assms
  by (auto simp add: report_to_room_moderators_def get_event_or_raise_def Let_def)

theorem unknown_or_invisible_event_not_found_witness:
  "(fst (report_to_room_moderators sample_hs (RoomID ''!room:local.org'') ''$unknown'' alice
      ''spam'' (Some (- 50)) None) = []
    \<and> (case snd (report_to_room_moderators sample_hs (RoomID ''!room:local.org'') ''$unknown''
                   alice ''spam'' (Some (- 50)) None)
        of Inl e \<Rightarrow> is_not_found e | Inr r \<Rightarrow> False))
   \<and> (fst (report_to_room_moderators sample_hs (RoomID ''!room:local.org'') ''$ev2'' alice
      ''spam'' (Some (- 50)) None) = []
    \<and> (case snd (report_to_room_moderators sample_hs (RoomID ''!room:local.org'') ''$ev2''
                   alice ''spam'' (Some (- 50)) None)
        of Inl e \<Rightarrow> is_not_found e | Inr r \<Rightarrow> False))
   \<and> (fst (report_to_room_moderators sample_hs (RoomID ''!room:local.org'') ''$ev'' hidden
      ''spam'' (Some (- 50)) None) = []
    \<and> (case snd (report_to_room_moderators sample_hs (RoomID ''!room:local.org'') ''$ev''
                   hidden ''spam'' (Some (- 50)) None)
        of Inl e \<Rightarrow> is_not_found e | Inr r \<Rightarrow> False))"
proof -
  have unknown: "get_event sample_hs (JStr ''$unknown'') = None"
    by (simp add: sample_hs_def sample_get_event_def)
  have other_room: "get_event sample_hs (JStr ''$ev2'') = Some (Event ''!nopl:local.org'')
      \<and> event_room_id (Event ''!nopl:local.org'') \<noteq> room_to_string (RoomID ''!room:local.org'')"
    by (simp add: sample_hs_def sample_get_event_def)
  have invisible: "get_event sample_hs (JStr ''$ev'') = Some (Event ''!room:local.org'')
      \<and> filter_events_for_client sample_hs (to_string hidden) [Event ''!room:local.org''] = []"
    by (simp add: sample_hs_def sample_get_event_def sample_filter_events_for_client_def
          hidden_def)
  show ?thesis
    using unknown_or_invisible_event_not_found [of sample_hs "''$unknown''"
        "RoomID ''!room:local.org''" alice "''spam''" "Some (- 50)" None]
      unknown_or_invisible_event_not_found [of sample_hs "''$ev2''"
        "RoomID ''!room:local.org''" alice "''spam''" "Some (- 50)" None]
      unknown_or_invisible_event_not_found [of sample_hs "''$ev''"
        "RoomID ''!room:local.org''" hidden "''spam''" "Some (- 50)" None]
      unknown other_room invisible
    by blast
qed

section \<open>Grouping and dispatch on the local path\<close>

text \<open>
  The grouping loop files every moderator under the key \<open>user_id.domain\<close>: whatever the
  moderators' own domains, the dictionary has at most one key, the reporter's domain.
\<close>

lemma group_moderators_bucket:
  "group_moderators user_id mods [(domain user_id, acc)] = [(domain user_id, acc @ mods)]"
  by (induction mods arbitrary: acc) simp_all

lemma group_moderators_single_bucket:
  "group_moderators user_id mods [] = (if mods = [] then [] else [(domain user_id, mods)])"
proof (cases mods)
  case Nil
  then show ?thesis by simp
next
  case (Cons m rest)
  then show ?thesis
    using group_moderators_bucket [of user_id rest "[m]"] by simp
qed

lemma dispatch_by_reporter_domain:
  "dispatch_report hs event_content (group_moderators user_id mods []) =
     (if mods = [] then []
      else if hostname hs = domain user_id then
        (if is_enabled hs then
           map (\<lambda>moderator_id. SendNotice (to_string moderator_id) Message event_content) mods
         else [])
      else if federation_sender hs then [SendEdu (domain user_id) ContentReport event_content]
      else [])"
  by (simp add: group_moderators_single_bucket)

text \<open>The sample deployment: a report by \<open>@alice:local.org\<close> on \<open>$ev\<close>.\<close>

lemma sample_moderators:
  "get_moderators sample_hs (RoomID_object (RoomID ''!room:local.org''))
     = Inr [UserID ''local.org'' ''@A:local.org'', UserID ''remote.org'' ''@B:remote.org'']"
  by (simp add: get_moderators_def sample_hs_def sample_get_current_state_def
        sample_power_levels_def moderator_level_of_def sample_UserID_from_string_def
        sample_domain_def)

lemma sample_report_to_room_moderators:
  "report_to_room_moderators sample_hs (RoomID ''!room:local.org'') ''$ev'' alice
      ''spam'' (Some (- 50)) None
     = ([SendNotice ''@A:local.org'' Message
          (moderators_event_content sample_hs (RoomID ''!room:local.org'') ''$ev'' alice
             ''spam'' (Some (- 50)) None),
        SendNotice ''@B:remote.org'' Message
          (moderators_event_content sample_hs (RoomID ''!room:local.org'') ''$ev'' alice
             ''spam'' (Some (- 50)) None)], Inr None)"
proof -
  have ev: "get_event_or_raise sample_hs (JStr ''$ev'') = Inr (Event ''!room:local.org'')"
    by (simp add: get_event_or_raise_def sample_hs_def sample_get_event_def)
  have vis: "filter_events_for_client sample_hs (to_string alice) [Event ''!room:local.org'']
               = [Event ''!room:local.org'']"
    by (simp add: sample_hs_def sample_filter_events_for_client_def alice_def)
  have grp: "group_moderators alice
     [UserID ''local.org'' ''@A:local.org'', UserID ''remote.org'' ''@B:remote.org''] []
     = [(''local.org'',
         [UserID ''local.org'' ''@A:local.org'', UserID ''remote.org'' ''@B:remote.org''])]"
    by (simp add: alice_def Let_def)
  have cfg: "hostname sample_hs = ''local.org''" "is_enabled sample_hs"
    "domain alice = ''local.org''"
    by (simp_all add: sample_hs_def alice_def)
  show ?thesis
    by (simp add: report_to_room_moderators_def ev vis sample_moderators grp cfg Let_def)
qed

text \<open>
  C1. The claim asks for one local notice per moderator of the local domain and one
  federation EDU per remote domain. On the sample deployment the moderators are
  \<open>@A:local.org\<close> and \<open>@B:remote.org\<close>, notices and federation are enabled, and the
  reporter is local: the grouping puts both moderators under \<open>local.org\<close>, the remote
  moderator is sent a local notice, and no EDU is sent to \<open>remote.org\<close>.
\<close>

theorem remote_moderator_grouped_under_reporter_domain:
  "group_moderators alice
     [UserID ''local.org'' ''@A:local.org'', UserID ''remote.org'' ''@B:remote.org''] []
     = [(''local.org'',
         [UserID ''local.org'' ''@A:local.org'', UserID ''remote.org'' ''@B:remote.org''])]
   \<and> fst (report_to_room_moderators sample_hs (RoomID ''!room:local.org'') ''$ev'' alice
            ''spam'' (Some (- 50)) None)
     = [SendNotice ''@A:local.org'' Message
          (moderators_event_content sample_hs (RoomID ''!room:local.org'') ''$ev'' alice
             ''spam'' (Some (- 50)) None),
        SendNotice ''@B:remote.org'' Message
          (moderators_event_content sample_hs (RoomID ''!room:local.org'') ''$ev'' alice
             ''spam'' (Some (- 50)) None)]
   \<and> \<not> list_ex is_federation_send
        (fst (report_to_room_moderators sample_hs (RoomID ''!room:local.org'') ''$ev'' alice
            ''spam'' (Some (- 50)) None))"
proof -
  have grouped: "group_moderators alice
     [UserID ''local.org'' ''@A:local.org'', UserID ''remote.org'' ''@B:remote.org''] []
     = [(''local.org'',
         [UserID ''local.org'' ''@A:local.org'', UserID ''remote.org'' ''@B:remote.org''])]"
    by (simp add: alice_def Let_def)
  have no_edu: "\<not> list_ex is_federation_send
        (fst (report_to_room_moderators sample_hs (RoomID ''!room:local.org'') ''$ev'' alice
            ''spam'' (Some (- 50)) None))"
    by (simp add: sample_report_to_room_moderators)
  show ?thesis
    by (intro conjI) (rule grouped, simp add: sample_report_to_room_moderators, rule no_edu)
qed

section \<open>The value a report returns\<close>

text \<open>
  The entry point hands the sample report with target \<open>room-moderators\<close> to the
  moderators' path and returns what that path returns.
\<close>

lemma sample_report_room_moderators:
  "report sample_hs alice
          [(''reason'', JStr ''spam''), (''score'', JInt (- 50)),
           (''org.matrix.msc2938.target'', JStr ''room-moderators'')]
          ''!room:local.org'' ''$ev'' ''spam'' (Some (- 50)) None
   = report_to_room_moderators sample_hs (RoomID ''!room:local.org'') ''$ev'' alice
      ''spam'' (Some (- 50)) None"
  by (simp add: report_def sample_hs_def sample_RoomID_from_string_def
        sample_assert_params_in_dict_def dict_get_def)

text \<open>
  C8. The claim asks for a success result with an empty body on both paths. On the
  sample deployment a report with target \<open>room-moderators\<close> completes and returns
  Python's \<open>None\<close>, where the same report without a target returns \<open>(200, {})\<close>.
\<close>

theorem room_moderators_path_returns_None:
  "snd (report sample_hs alice
          [(''reason'', JStr ''spam''), (''score'', JInt (- 50)),
           (''org.matrix.msc2938.target'', JStr ''room-moderators'')]
          ''!room:local.org'' ''$ev'' ''spam'' (Some (- 50)) None)
     = Inr None
   \<and> snd (report sample_hs alice
          [(''reason'', JStr ''spam''), (''score'', JInt (- 50))]
          ''!room:local.org'' ''$ev'' ''spam'' (Some (- 50)) None)
     = Inr (Some (200, []))"
proof -
  have admin: "report sample_hs alice
          [(''reason'', JStr ''spam''), (''score'', JInt (- 50))]
          ''!room:local.org'' ''$ev'' ''spam'' (Some (- 50)) None
     = report_to_homeserver_admin sample_hs (RoomID ''!room:local.org'') ''$ev'' alice ''spam''
         [(''reason'', JStr ''spam''), (''score'', JInt (- 50))]"
    by (simp add: report_def sample_hs_def sample_RoomID_from_string_def
        sample_assert_params_in_dict_def dict_get_def)
  show ?thesis
    by (simp add: sample_report_room_moderators sample_report_to_room_moderators admin
          report_to_homeserver_admin_def)
qed

section \<open>Reports received through federation: results\<close>

text \<open>
  Once the checks have passed, \<open>get_moderators\<close> is called with the value popped from
  the EDU content, on which \<open>to_string()\<close> raises: no notice is sent.
\<close>

lemma dispatch_to_local_moderators_raises:
  "dispatch_to_local_moderators hs room_id event_id reporter_id score reason
     = ([], Inl (AttributeError ''to_string''))"
  by (simp add: dispatch_to_local_moderators_def get_moderators_def)

text \<open>
  C9. The claim asks that every local moderator is sent a notice on the federated path.
  On the sample deployment an EDU from \<open>remote.org\<close> that passes all three checks, for a
  room with the local moderator \<open>@A:local.org\<close>, ends in \<open>AttributeError\<close> with no
  notice sent.
\<close>

theorem valid_federated_report_raises_AttributeError:
  "on_receive_report_through_federation sample_hs ''remote.org''
     [(''room_id'', JStr ''!room:local.org''), (''event_id'', JStr ''$ev''),
      (''reporter_id'', JStr ''@bob:remote.org''), (''score'', JInt (- 50)),
      (''reason'', JStr ''spam'')]
     = ([], Inl (AttributeError ''to_string''))"
  by (simp add: on_receive_report_through_federation_def pop_def sample_hs_def
        sample_domain_def sample_get_event_def dispatch_to_local_moderators_def
        get_moderators_def)

text \<open>The loop over \<open>all_moderators\<close> sends one notice to each local moderator.\<close>

lemma notify_local_moderators_eq:
  "notify_local_moderators hs event_content mods
     = map (\<lambda>moderator_id. SendNotice (to_string moderator_id) Message event_content)
         (filter (is_mine hs) mods)"
  by (induction mods) simp_all

lemma notify_local_moderators_no_federation_send:
  "list_all (\<lambda>e. \<not> is_federation_send e) (notify_local_moderators hs event_content mods)"
  by (induction mods) simp_all

lemma dispatch_to_local_moderators_no_federation_send:
  "list_all (\<lambda>e. \<not> is_federation_send e)
     (fst (dispatch_to_local_moderators hs room_id event_id reporter_id score reason))"
  by (simp add: dispatch_to_local_moderators_def Let_def
        notify_local_moderators_no_federation_send split: sum.split)

text \<open>
  On the sample deployment the moderators of the room claimed by an EDU for
  \<open>!room:local.org\<close> are \<open>@A:local.org\<close> and \<open>@B:remote.org\<close>: a notice to the first
  stays on this server, a notice to the second does not.
\<close>

lemma local_delivery_only_sample:
  "claimed_room_moderators sample_hs [(''room_id'', JStr ''!room:local.org'')]
     = [UserID ''local.org'' ''@A:local.org'', UserID ''remote.org'' ''@B:remote.org'']
   \<and> local_delivery_only sample_hs
        [UserID ''local.org'' ''@A:local.org'', UserID ''remote.org'' ''@B:remote.org'']
        (SendNotice ''@A:local.org'' Message event_content)
   \<and> \<not> local_delivery_only sample_hs
        [UserID ''local.org'' ''@A:local.org'', UserID ''remote.org'' ''@B:remote.org'']
        (SendNotice ''@B:remote.org'' Message event_content)"
proof -
  have host: "hostname sample_hs = ''local.org''"
    by (simp add: sample_hs_def)
  show ?thesis
    by (simp add: claimed_room_moderators_def sample_moderators is_mine_def host)
qed

text \<open>
  Every call of the delivery loop stays on this server. Every call of the handler does
  too, with respect to any list of moderators: the handler logs a warning or, once the
  checks have passed, fails in moderator resolution before the loop.
\<close>

lemma notify_local_moderators_local_only:
  "list_all (local_delivery_only hs mods) (notify_local_moderators hs event_content mods)"
  by (simp add: notify_local_moderators_eq list_all_iff list_ex_iff) blast

lemma on_receive_calls:
  "list_all (local_delivery_only hs mods)
     (fst (on_receive_report_through_federation hs origin edu_content))"
  unfolding on_receive_report_through_federation_def
  by (simp add: dispatch_to_local_moderators_raises
        split: sum.split option.split prod.split)

text \<open>
  C7. For every server, origin and EDU content, every call the federated handler makes
  stays on this server: it never calls the federation sender, and a notice it sends goes
  to a moderator of the claimed room that belongs to this server. The delivery loop
  sends one notice to each moderator of this server and to no one else. (On this path
  moderator resolution raises once the checks have passed, so that the handler sends no
  notice at all.)
\<close>

theorem federated_path_never_federates:
  "list_all (local_delivery_only hs (claimed_room_moderators hs edu_content))
     (fst (on_receive_report_through_federation hs origin edu_content))
   \<and> list_all (\<lambda>e. \<not> is_federation_send e)
     (fst (on_receive_report_through_federation hs origin edu_content))
   \<and> notify_local_moderators hs event_content mods
     = map (\<lambda>moderator_id. SendNotice (to_string moderator_id) Message event_content)
         (filter (is_mine hs) mods)"
proof -
  have no_edu: "list_all (\<lambda>e. \<not> is_federation_send e)
     (fst (on_receive_report_through_federation hs origin edu_content))"
    unfolding on_receive_report_through_federation_def
    by (simp add: dispatch_to_local_moderators_no_federation_send
          split: sum.split option.split prod.split)
  show ?thesis
    by (intro conjI) (rule on_receive_calls, rule no_edu, rule notify_local_moderators_eq)
qed





text \<open>The handler reads the EDU content at the five keys only.\<close>

lemma on_receive_agree:
  assumes "map_of edu1 ''room_id'' = map_of edu2 ''room_id''"
    and "map_of edu1 ''event_id'' = map_of edu2 ''event_id''"
    and "map_of edu1 ''reporter_id'' = map_of edu2 ''reporter_id''"
    and "map_of edu1 ''score'' = map_of edu2 ''score''"
    and "map_of edu1 ''reason'' = map_of edu2 ''reason''"
  shows "on_receive_report_through_federation hs origin edu1
        = on_receive_report_through_federation hs origin edu2"
  using assms
  by (simp add: on_receive_report_through_federation_def pop_def delete_conv'
        split: option.split)

text \<open>
  C5. The outcome of a report to the room's moderators, that is every collaborator call
  with its payload and the result, is the same for two request bodies that both select
  the target \<open>room-moderators\<close> and pass the parameter check, whatever else they contain.
  The outcome of the federated handler is the same for two EDU contents that agree on
  \<open>room_id\<close>, \<open>event_id\<close>, \<open>reporter_id\<close>, \<open>score\<close> and \<open>reason\<close>, whatever else they
  contain.
\<close>

theorem payload_independent_of_extra_fields:
  "(dict_get body1 ''org.matrix.msc2938.target'' (JStr ''homeserver-admins'')
       = JStr ''room-moderators''
     \<and> dict_get body2 ''org.matrix.msc2938.target'' (JStr ''homeserver-admins'')
       = JStr ''room-moderators''
     \<and> assert_params_in_dict hs body1 [''reason'', ''score''] = None
     \<and> assert_params_in_dict hs body2 [''reason'', ''score''] = None
    \<longrightarrow> report hs user_id body1 room_id event_id reason score nature
        = report hs user_id body2 room_id event_id reason score nature)
   \<and> (list_all (\<lambda>k. map_of edu1 k = map_of edu2 k)
         [''room_id'', ''event_id'', ''reporter_id'', ''score'', ''reason'']
    \<longrightarrow> on_receive_report_through_federation hs origin edu1
        = on_receive_report_through_federation hs origin edu2)"
proof (intro conjI impI)
  assume routed: "dict_get body1 ''org.matrix.msc2938.target'' (JStr ''homeserver-admins'')
       = JStr ''room-moderators''
     \<and> dict_get body2 ''org.matrix.msc2938.target'' (JStr ''homeserver-admins'')
       = JStr ''room-moderators''
     \<and> assert_params_in_dict hs body1 [''reason'', ''score''] = None
     \<and> assert_params_in_dict hs body2 [''reason'', ''score''] = None"
  show "report hs user_id body1 room_id event_id reason score nature
        = report hs user_id body2 room_id event_id reason score nature"
  proof (cases "RoomID_from_string hs room_id")
    case (Inl e)
    then show ?thesis by (simp add: report_def)
  next
    case (Inr typed_room_id)
    from routed show ?thesis
      by (simp add: report_room_moderators_target [OF Inr])
  qed
next
  assume "list_all (\<lambda>k. map_of edu1 k = map_of edu2 k)
         [''room_id'', ''event_id'', ''reporter_id'', ''score'', ''reason'']"
  then show "on_receive_report_through_federation hs origin edu1
        = on_receive_report_through_federation hs origin edu2"
    by (intro on_receive_agree) simp_all
qed

theorem payload_independent_of_extra_fields_witness:
  "report sample_hs alice
     [(''reason'', JStr ''spam''), (''score'', JInt (- 50)),
      (''org.matrix.msc2938.target'', JStr ''room-moderators''),
      (''msgtype'', JStr ''m.text''), (''injected'', JStr ''payload'')]
     ''!room:local.org'' ''$ev'' ''spam'' (Some (- 50)) None
   = report sample_hs alice
     [(''reason'', JStr ''spam''), (''score'', JInt (- 50)),
      (''org.matrix.msc2938.target'', JStr ''room-moderators'')]
     ''!room:local.org'' ''$ev'' ''spam'' (Some (- 50)) None
   \<and> on_receive_report_through_federation sample_hs ''remote.org''
     [(''room_id'', JStr ''!room:local.org''), (''event_id'', JStr ''$unknown''),
      (''reporter_id'', JStr ''@bob:remote.org''), (''score'', JInt (- 50)),
      (''reason'', JStr ''spam''), (''injected'', JStr ''payload'')]
   = on_receive_report_through_federation sample_hs ''remote.org''
     [(''room_id'', JStr ''!room:local.org''), (''event_id'', JStr ''$unknown''),
      (''reporter_id'', JStr ''@bob:remote.org''), (''score'', JInt (- 50)),
      (''reason'', JStr ''spam'')]"
proof -
  have routed: "dict_get [(''reason'', JStr ''spam''), (''score'', JInt (- 50)),
         (''org.matrix.msc2938.target'', JStr ''room-moderators''),
         (''msgtype'', JStr ''m.text''), (''injected'', JStr ''payload'')]
        ''org.matrix.msc2938.target'' (JStr ''homeserver-admins'') = JStr ''room-moderators''
     \<and> dict_get [(''reason'', JStr ''spam''), (''score'', JInt (- 50)),
         (''org.matrix.msc2938.target'', JStr ''room-moderators'')]
        ''org.matrix.msc2938.target'' (JStr ''homeserver-admins'') = JStr ''room-moderators''
     \<and> assert_params_in_dict sample_hs [(''reason'', JStr ''spam''), (''score'', JInt (- 50)),
         (''org.matrix.msc2938.target'', JStr ''room-moderators''),
         (''msgtype'', JStr ''m.text''), (''injected'', JStr ''payload'')]
        [''reason'', ''score''] = None
     \<and> assert_params_in_dict sample_hs [(''reason'', JStr ''spam''), (''score'', JInt (- 50)),
         (''org.matrix.msc2938.target'', JStr ''room-moderators'')]
        [''reason'', ''score''] = None"
    by (simp add: dict_get_def sample_hs_def sample_assert_params_in_dict_def)
  have agree: "list_all
     (\<lambda>k. map_of [(''room_id'', JStr ''!room:local.org''), (''event_id'', JStr ''$unknown''),
              (''reporter_id'', JStr ''@bob:remote.org''), (''score'', JInt (- 50)),
              (''reason'', JStr ''spam''), (''injected'', JStr ''payload'')] k
         = map_of [(''room_id'', JStr ''!room:local.org''), (''event_id'', JStr ''$unknown''),
              (''reporter_id'', JStr ''@bob:remote.org''), (''score'', JInt (- 50)),
              (''reason'', JStr ''spam'')] k)
     [''room_id'', ''event_id'', ''reporter_id'', ''score'', ''reason'']"
    by simp
  from payload_independent_of_extra_fields [of _ _ sample_hs] routed agree
  show ?thesis by blast
qed

end
